theory Spec2Isabelle
  imports Main "HOL-Library.Word" "HOL-Library.Sublist"
begin

section \<open>GSCX modules loader: bundle codec, virtual flash, boot chain, recovery\<close>

text \<open>
  A shallow embedding of \<^verbatim>\<open>src/pyapp/gscx_gui/modules_loader.py\<close> (class
  \<^verbatim>\<open>ModulesLoader\<close>). The loader object, the file system, the process
  environment and the lines handed to the log callback are fields of one record that
  every method takes and returns. An exception is a value: a method that can raise
  returns an \<open>outcome\<close>, and the state it leaves behind is returned with it.
\<close>

subsection \<open>Bytes and little-endian fields\<close>

type_synonym byte = "8 word"

text \<open>Python's \<^verbatim>\<open>data[a:b]\<close> for \<open>0 \<le> a\<close>: it never raises and is cut at the end of the buffer.\<close>

definition pyslice :: "'a list \<Rightarrow> nat \<Rightarrow> nat \<Rightarrow> 'a list" where
  "pyslice xs a b = take (b - a) (drop a xs)"

definition le_uint :: "byte list \<Rightarrow> nat" where
  "le_uint bs = foldr (\<lambda>b acc. unat b + 256 * acc) bs 0"

text \<open>
  \<^verbatim>\<open>struct.unpack_from(fmt, data, off)\<close> raises \<^verbatim>\<open>struct.error\<close> unless the buffer holds
  the whole field group from \<open>off\<close> on; here \<open>None\<close> is that error.
\<close>

definition unpack_IHH :: "byte list \<Rightarrow> nat \<Rightarrow> (nat \<times> nat \<times> nat) option" where
  "unpack_IHH data off =
     (if off + 8 \<le> length data
      then Some (le_uint (pyslice data off (off + 4)),
                 le_uint (pyslice data (off + 4) (off + 6)),
                 le_uint (pyslice data (off + 6) (off + 8)))
      else None)"

definition unpack_HH :: "byte list \<Rightarrow> nat \<Rightarrow> (nat \<times> nat) option" where
  "unpack_HH data off =
     (if off + 4 \<le> length data
      then Some (le_uint (pyslice data off (off + 2)), le_uint (pyslice data (off + 2) (off + 4)))
      else None)"

definition unpack_II :: "byte list \<Rightarrow> nat \<Rightarrow> (nat \<times> nat) option" where
  "unpack_II data off =
     (if off + 8 \<le> length data
      then Some (le_uint (pyslice data off (off + 4)), le_uint (pyslice data (off + 4) (off + 8)))
      else None)"

text \<open>
  \<^verbatim>\<open>bytes.decode('utf-8')\<close> in strict mode: well-formed UTF-8 only (no overlong form, no
  surrogate, nothing above U+10FFFF). The decoded name is kept as its UTF-8 bytes, one
  \<open>char\<close> per byte, which is how the file system stores it.
\<close>

definition cont :: "nat \<Rightarrow> bool" where
  "cont b = (128 \<le> b \<and> b \<le> 191)"

fun utf8_valid :: "nat list \<Rightarrow> bool" where
  "utf8_valid [] = True"
| "utf8_valid (a # bs) =
     (if a < 128 then utf8_valid bs
      else if 194 \<le> a \<and> a \<le> 223 then
        (case bs of b # r \<Rightarrow> cont b \<and> utf8_valid r | _ \<Rightarrow> False)
      else if 224 \<le> a \<and> a \<le> 239 then
        (case bs of b # c # r \<Rightarrow>
           (if a = 224 then 160 \<le> b \<and> b \<le> 191
            else if a = 237 then 128 \<le> b \<and> b \<le> 159
            else cont b) \<and> cont c \<and> utf8_valid r
         | _ \<Rightarrow> False)
      else if 240 \<le> a \<and> a \<le> 244 then
        (case bs of b # c # d # r \<Rightarrow>
           (if a = 240 then 144 \<le> b \<and> b \<le> 191
            else if a = 244 then 128 \<le> b \<and> b \<le> 143
            else cont b) \<and> cont c \<and> cont d \<and> utf8_valid r
         | _ \<Rightarrow> False)
      else False)"

definition decode_utf8 :: "byte list \<Rightarrow> string option" where
  "decode_utf8 bs = (if utf8_valid (map unat bs) then Some (map (\<lambda>b. char_of (unat b)) bs) else None)"

definition encode_utf8 :: "string \<Rightarrow> byte list" where
  "encode_utf8 s = map (\<lambda>c. of_nat (of_char c)) s"

subsection \<open>Exceptions, outcomes and log lines\<close>

datatype exn =
    StructError | UnicodeDecodeError
  | FileNotFoundError | FileExistsError | IsADirectoryError | NotADirectoryError
  | PermissionError | SameFileError | NativeFault

datatype 'a outcome = Ret 'a | Exc exn

type_synonym path = "string list"

text \<open>
  A line handed to the log callback. The catalogue function \<^verbatim>\<open>t\<close> of
  \<^verbatim>\<open>gscx_gui/i18n.py\<close> is not among the sources, so a translated line is kept as its key
  and arguments (\<open>Tr\<close>); \<open>Fmt\<close> is an f-string with one formatted value at its end.
\<close>

datatype arg = AStr string | ANat nat | ABool bool | AExn exn | APath path

datatype logline = Raw string | Fmt string arg | Tr string "(string \<times> arg) list"

subsection \<open>The file system\<close>

text \<open>
  Paths are absolute lists of components from the root; names are case-sensitive and
  separated by \<^verbatim>\<open>/\<close>, as \<^verbatim>\<open>posixpath\<close> has them. The file system is the list of its
  entries; the root always exists. In a well-formed file system every entry's parent
  is a directory (\<open>wf_fs\<close>).
\<close>

datatype node = File "byte list" | Dir

type_synonym filesystem = "(path \<times> node) list"

definition lookup :: "filesystem \<Rightarrow> path \<Rightarrow> node option" where
  "lookup fs p = (if p = [] then Some Dir else map_of fs p)"

definition path_exists :: "filesystem \<Rightarrow> path \<Rightarrow> bool" where
  "path_exists fs p = (lookup fs p \<noteq> None)"

definition isdir :: "filesystem \<Rightarrow> path \<Rightarrow> bool" where
  "isdir fs p = (lookup fs p = Some Dir)"

definition isfile :: "filesystem \<Rightarrow> path \<Rightarrow> bool" where
  "isfile fs p = (case lookup fs p of Some (File _) \<Rightarrow> True | _ \<Rightarrow> False)"

definition wf_fs :: "filesystem \<Rightarrow> bool" where
  "wf_fs fs = (\<forall>p \<in> fst ` set fs. p \<noteq> [] \<and> isdir fs (butlast p))"

definition store :: "filesystem \<Rightarrow> path \<Rightarrow> node \<Rightarrow> filesystem" where
  "store fs p n = (p, n) # filter (\<lambda>e. fst e \<noteq> p) fs"

text \<open>
  \<^verbatim>\<open>os.path.getsize\<close>: the length of a file; for a directory the platform reports some
  size of its own, the parameter \<open>dsz\<close>.
\<close>

definition getsize :: "nat \<Rightarrow> filesystem \<Rightarrow> path \<Rightarrow> nat option" where
  "getsize dsz fs p =
     (case lookup fs p of None \<Rightarrow> None | Some Dir \<Rightarrow> Some dsz | Some (File b) \<Rightarrow> Some (length b))"

text \<open>
  \<^verbatim>\<open>os.makedirs(p, exist_ok=True)\<close>: creates the missing directories of \<open>p\<close> from the
  root down; a regular file in the way raises. In a well-formed file system nothing has
  been created when it raises, so the error leaves the file system as it was.
\<close>

fun makedirs_from :: "filesystem \<Rightarrow> path \<Rightarrow> string list \<Rightarrow> exn + filesystem" where
  "makedirs_from fs pre [] = Inr fs"
| "makedirs_from fs pre (c # cs) =
     (case lookup fs (pre @ [c]) of
        None \<Rightarrow> makedirs_from (store fs (pre @ [c]) Dir) (pre @ [c]) cs
      | Some Dir \<Rightarrow> makedirs_from fs (pre @ [c]) cs
      | Some (File _) \<Rightarrow> Inl (if cs = [] then FileExistsError else NotADirectoryError))"

definition makedirs :: "filesystem \<Rightarrow> path \<Rightarrow> exn + filesystem" where
  "makedirs fs p = makedirs_from fs [] p"

text \<open>\<^verbatim>\<open>open(p, 'w')\<close> or \<^verbatim>\<open>'wb'\<close>, one \<^verbatim>\<open>write\<close>, and the close.\<close>

definition write_file :: "filesystem \<Rightarrow> path \<Rightarrow> byte list \<Rightarrow> exn + filesystem" where
  "write_file fs p b =
     (if p = [] then Inl IsADirectoryError
      else case lookup fs (butlast p) of
             None \<Rightarrow> Inl FileNotFoundError
           | Some (File _) \<Rightarrow> Inl NotADirectoryError
           | Some Dir \<Rightarrow> (if isdir fs p then Inl IsADirectoryError else Inr (store fs p (File b))))"

text \<open>
  \<^verbatim>\<open>shutil.copy2(src, dst)\<close>: the source must be a regular file; a destination that is a
  directory receives the file under the source's base name.
\<close>

definition copy2 :: "filesystem \<Rightarrow> path \<Rightarrow> path \<Rightarrow> exn + filesystem" where
  "copy2 fs src dst =
     (case lookup fs src of
        None \<Rightarrow> Inl FileNotFoundError
      | Some Dir \<Rightarrow> Inl IsADirectoryError
      | Some (File b) \<Rightarrow>
          (let dst' = (if isdir fs dst then dst @ [last src] else dst)
           in if dst' = src then Inl SameFileError else write_file fs dst' b))"

text \<open>
  Deletion can fail: \<open>locked\<close> lists the entries the system refuses to delete (in use,
  or protected). \<^verbatim>\<open>os.remove\<close> raises on such a file. \<^verbatim>\<open>shutil.rmtree(p,
  ignore_errors=True)\<close> never raises and deletes what it can, so what stays under \<open>p\<close>
  is each locked entry with the directories leading to it.
\<close>

definition pinned :: "filesystem \<Rightarrow> path list \<Rightarrow> path \<Rightarrow> bool" where
  "pinned fs locked q = (\<exists>r \<in> set locked. prefix q r \<and> path_exists fs r)"

definition os_remove :: "filesystem \<Rightarrow> path list \<Rightarrow> path \<Rightarrow> exn + filesystem" where
  "os_remove fs locked p =
     (case lookup fs p of
        None \<Rightarrow> Inl FileNotFoundError
      | Some Dir \<Rightarrow> Inl IsADirectoryError
      | Some (File _) \<Rightarrow>
          (if p \<in> set locked then Inl PermissionError else Inr (filter (\<lambda>e. fst e \<noteq> p) fs)))"

definition rmtree :: "filesystem \<Rightarrow> path list \<Rightarrow> path \<Rightarrow> filesystem" where
  "rmtree fs locked p = filter (\<lambda>e. \<not> prefix p (fst e) \<or> pinned fs locked (fst e)) fs"

definition listdir :: "filesystem \<Rightarrow> path \<Rightarrow> exn + string list" where
  "listdir fs p =
     (case lookup fs p of
        None \<Rightarrow> Inl FileNotFoundError
      | Some (File _) \<Rightarrow> Inl NotADirectoryError
      | Some Dir \<Rightarrow> Inr (remdups (map (last \<circ> fst) (filter (\<lambda>e. fst e \<noteq> [] \<and> butlast (fst e) = p) fs))))"

text \<open>
  \<^verbatim>\<open>os.path.join(d, name)\<close> for a name that arrives as text. A name is split at
  \<^verbatim>\<open>/\<close>; it is \<open>portable\<close> when no component is empty, \<^verbatim>\<open>.\<close> or \<^verbatim>\<open>..\<close> or holds a NUL.
  Other names (absolute, climbing, empty) resolve by rules the model does not have:
  \<open>join_name\<close> is \<open>None\<close> for them, and so is every method that meets one.
\<close>

fun split_slash :: "string \<Rightarrow> string list" where
  "split_slash [] = [[]]"
| "split_slash (c # cs) =
     (if c = CHR ''/'' then [] # split_slash cs
      else (case split_slash cs of [] \<Rightarrow> [[c]] | x # xs \<Rightarrow> (c # x) # xs))"

definition portable :: "string list \<Rightarrow> bool" where
  "portable cs = (cs \<noteq> [] \<and> (\<forall>c \<in> set cs. c \<noteq> [] \<and> c \<noteq> ''.'' \<and> c \<noteq> ''..'' \<and> CHR 0x00 \<notin> set c))"

definition join_name :: "path \<Rightarrow> string \<Rightarrow> path option" where
  "join_name d name = (let cs = split_slash name in if portable cs then Some (d @ cs) else None)"

subsection \<open>Native modules and the loader's state\<close>

text \<open>
  What calling a native entry point does: it returns a value, or it faults and
  \<^verbatim>\<open>ctypes\<close> raises. A library is the set of entry points \<^verbatim>\<open>getattr\<close> resolves on it
  (\<open>None\<close>: \<^verbatim>\<open>AttributeError\<close>).
\<close>

datatype 'a native = Returns 'a | Throws

record lib =
  getinfo_entry :: bool
  init_entry :: "bool native option"
  shut_entry :: "unit native option"
  recovery_entry :: "unit native option"
  lv0_entry :: "bool native option"
  lv1_entry :: "bool native option"
  syscon_entry :: "bool native option"

record vflash_info =
  ipath :: path
  partitions :: "string list"
  ros_slots :: "string list"

text \<open>
  The fields of \<^verbatim>\<open>self\<close> first, then the process around it: the file system with its
  undeletable entries, the size it reports for a directory, the directories
  \<^verbatim>\<open>tempfile.mkdtemp\<close> will hand out, what \<^verbatim>\<open>ctypes.WinDLL\<close> makes of a file's bytes,
  and \<^verbatim>\<open>os.environ\<close>. \<open>log\<close> holds the lines the loader has passed to \<^verbatim>\<open>on_log\<close>;
  \<open>trace\<close> is an observation of the run, not a field of the program: each boot stage
  entered and each native entry point called, in order.
\<close>

record world =
  on_log :: bool
  loaded :: "(string \<times> lib) list"
  temp_dir :: "path option"
  vusb_dir :: "path option"
  last_usb_dir :: "path option"
  vflash_dir :: "path option"
  vflash_info :: "vflash_info option"
  active_ros :: "string option"
  fs :: filesystem
  locked :: "path list"
  dir_size :: nat
  tmp_supply :: "path list"
  windll :: "byte list \<Rightarrow> lib option"
  env :: "string \<Rightarrow> string option"
  log :: "logline list"
  trace :: "string list"

definition MODULES :: "string list" where
  "MODULES = [''gscx_cpu_cell'', ''gscx_gpu_rsx'', ''gscx_recovery'', ''gscx_bootloader'',
              ''gscx_syscon'', ''gscx_hypervisor'']"

definition emit :: "logline \<Rightarrow> world \<Rightarrow> world" where
  "emit m w = (if on_log w then w\<lparr>log := log w @ [m]\<rparr> else w)"

definition called :: "string \<Rightarrow> world \<Rightarrow> world" where
  "called name w = w\<lparr>trace := trace w @ [name]\<rparr>"

text \<open>
  \<^verbatim>\<open>tempfile.mkdtemp\<close>: the next directory of the supply is created; it raises when
  there is none, when that path is taken or when its parent is no directory.
\<close>

definition mkdtemp :: "world \<Rightarrow> (exn + path) \<times> world" where
  "mkdtemp w =
     (case tmp_supply w of
        [] \<Rightarrow> (Inl FileExistsError, w)
      | d # ds \<Rightarrow>
          (if d = [] \<or> path_exists (fs w) d then (Inl FileExistsError, w\<lparr>tmp_supply := ds\<rparr>)
           else if \<not> isdir (fs w) (butlast d) then (Inl FileNotFoundError, w\<lparr>tmp_supply := ds\<rparr>)
           else (Inr d, w\<lparr>fs := store (fs w) d Dir, tmp_supply := ds\<rparr>)))"

subsection \<open>Loading modules from directories\<close>

text \<open>
  One iteration of the inner loop of \<^verbatim>\<open>_load_from_dirs\<close>. A fault in
  \<^verbatim>\<open>GSCX_Initialize\<close> surfaces as \<^verbatim>\<open>OSError\<close> and is caught with the load failures: the
  module is then not recorded.
\<close>

definition load_dll :: "path \<Rightarrow> string \<Rightarrow> world \<Rightarrow> world" where
  "load_dll d dll w =
     (case lookup (fs w) (d @ [dll]) of
        Some (File bytes) \<Rightarrow>
          (case windll w bytes of
             None \<Rightarrow> emit (Tr ''modules.load_failed'' [(''path'', APath (d @ [dll]))]) w
           | Some l \<Rightarrow>
               (let w1 = emit (Tr ''modules.loaded'' [(''path'', APath (d @ [dll]))]) w;
                    w2 = (if getinfo_entry l then w1
                          else emit (Tr ''modules.entrypoint_missing''
                                 [(''entry'', AStr ''GSCX_GetModuleInfo''), (''dll'', AStr dll)]) w1)
                in case init_entry l of
                     None \<Rightarrow>
                       (emit (Tr ''modules.entrypoint_missing''
                          [(''entry'', AStr ''GSCX_Initialize''), (''dll'', AStr dll)]) w2)
                         \<lparr>loaded := loaded w2 @ [(dll, l)]\<rparr>
                   | Some Throws \<Rightarrow>
                       emit (Tr ''modules.load_failed'' [(''path'', APath (d @ [dll]))])
                         (called ''GSCX_Initialize'' w2)
                   | Some (Returns ok) \<Rightarrow>
                       (emit (Tr ''modules.initialize_returned'' [(''ok'', ABool ok)])
                          (called ''GSCX_Initialize'' w2))
                         \<lparr>loaded := loaded w2 @ [(dll, l)]\<rparr>))
      | _ \<Rightarrow> w)"

definition load_from_dirs :: "path list \<Rightarrow> world \<Rightarrow> world" where
  "load_from_dirs dirs w =
     fold (\<lambda>d w'. fold (load_dll d) (map (\<lambda>m. m @ ''.dll'') MODULES) w') dirs w"

subsection \<open>The bundle codec: \<^verbatim>\<open>load_from_gscore\<close>\<close>

type_synonym entry = "nat \<times> string \<times> nat \<times> nat"

text \<open>
  The table loop, \<^verbatim>\<open>for _ in range(count)\<close>, with its variables \<open>off\<close> and \<open>entries\<close>.
  Any exception leaves the loop for the handler and discards the entries read so far.
\<close>

fun parse_loop :: "byte list \<Rightarrow> nat \<Rightarrow> nat \<Rightarrow> entry list \<Rightarrow> exn + (entry list \<times> nat)" where
  "parse_loop data off 0 entries = Inr (entries, off)"
| "parse_loop data off (Suc k) entries =
     (case unpack_HH data off of
        None \<Rightarrow> Inl StructError
      | Some (ty, name_len) \<Rightarrow>
          (case decode_utf8 (pyslice data (off + 4) (off + 4 + name_len)) of
             None \<Rightarrow> Inl UnicodeDecodeError
           | Some name \<Rightarrow>
               (case unpack_II data (off + 4 + name_len) of
                  None \<Rightarrow> Inl StructError
                | Some (payload_off, sz) \<Rightarrow>
                    parse_loop data (off + 4 + name_len + 8) k
                      (entries @ [(ty, name, payload_off, sz)]))))"

text \<open>
  The extraction loop. A failure to create the directories or to write the file is
  logged and the loop goes on with the next entry.
\<close>

fun extract_entries :: "byte list \<Rightarrow> path \<Rightarrow> entry list \<Rightarrow> world \<Rightarrow> world option" where
  "extract_entries data d [] w = Some w"
| "extract_entries data d ((ty, name, payload_off, sz) # es) w =
     (let blob = pyslice data payload_off (payload_off + sz) in
      case join_name d name of
        None \<Rightarrow> None
      | Some out_path \<Rightarrow>
          (case makedirs (fs w) (butlast out_path) of
             Inl e \<Rightarrow>
               extract_entries data d es
                 (emit (Tr ''modules.bundle_extract_fail'' [(''name'', AStr name), (''error'', AExn e)]) w)
           | Inr fs1 \<Rightarrow>
               (case write_file fs1 out_path blob of
                  Inl e \<Rightarrow>
                    extract_entries data d es
                      (emit (Tr ''modules.bundle_extract_fail'' [(''name'', AStr name), (''error'', AExn e)])
                         (w\<lparr>fs := fs1\<rparr>))
                | Inr fs2 \<Rightarrow>
                    extract_entries data d es
                      (emit (Tr ''modules.bundle_extracted'' [(''name'', AStr name), (''size'', ANat sz)])
                         (w\<lparr>fs := fs2\<rparr>)))))"

definition MAGIC :: nat where
  "MAGIC = 0x47534352"

definition load_from_gscore :: "world \<Rightarrow> path \<Rightarrow> (unit outcome \<times> world) option" where
  "load_from_gscore w bundle_path =
     (case lookup (fs w) bundle_path of
        Some (File data) \<Rightarrow>
          (if length data < 8 then Some (Ret (), emit (Tr ''modules.bundle_invalid_header'' []) w)
           else case unpack_IHH data 0 of
             None \<Rightarrow> Some (Exc StructError, w)
           | Some (magic, ver, count) \<Rightarrow>
               (if magic \<noteq> MAGIC then Some (Ret (), emit (Tr ''modules.bundle_magic_invalid'' []) w)
                else case parse_loop data 8 count [] of
                  Inl e \<Rightarrow> Some (Ret (), emit (Tr ''modules.bundle_table_read_error'' [(''error'', AExn e)]) w)
                | Inr (entries, _) \<Rightarrow>
                    (let w1 = (case temp_dir w of
                                 Some old \<Rightarrow> w\<lparr>fs := rmtree (fs w) (locked w) old\<rparr>
                               | None \<Rightarrow> w)
                     in case mkdtemp w1 of
                          (Inl e, w2) \<Rightarrow> Some (Exc e, w2)
                        | (Inr d, w2) \<Rightarrow>
                            (case extract_entries data d entries (w2\<lparr>temp_dir := Some d\<rparr>) of
                               None \<Rightarrow> None
                             | Some w3 \<Rightarrow> Some (Ret (), load_from_dirs [d] w3)))))
      | Some Dir \<Rightarrow> Some (Ret (), emit (Tr ''modules.bundle_open_fail'' [(''error'', AExn IsADirectoryError)]) w)
      | None \<Rightarrow> Some (Ret (), emit (Tr ''modules.bundle_open_fail'' [(''error'', AExn FileNotFoundError)]) w))"

subsection \<open>The virtual flash\<close>

definition emits :: "logline list \<Rightarrow> world \<Rightarrow> world" where
  "emits ms w = fold emit ms w"

definition PARTITIONS :: "string list" where
  "PARTITIONS = [''dev_flash'', ''dev_flash2'', ''dev_flash3'']"

definition ROS_SLOTS :: "string list" where
  "ROS_SLOTS = [''ros0'', ''ros1'']"

text \<open>\<^verbatim>\<open>str.upper\<close>, on the ASCII letters; the loader applies it to slot names only.\<close>

definition upper :: "string \<Rightarrow> string" where
  "upper s = map (\<lambda>c. if 97 \<le> (of_char c :: nat) \<and> (of_char c :: nat) \<le> 122
                        then char_of ((of_char c :: nat) - 32) else c) s"

text \<open>The loop \<^verbatim>\<open>for p in ...: os.makedirs(..., exist_ok=True)\<close>; directories made before a failure stay.\<close>

fun makedirs_all :: "filesystem \<Rightarrow> path list \<Rightarrow> exn option \<times> filesystem" where
  "makedirs_all f [] = (None, f)"
| "makedirs_all f (p # ps) =
     (case makedirs f p of Inl e \<Rightarrow> (Some e, f) | Inr f' \<Rightarrow> makedirs_all f' ps)"

text \<open>
  The placeholder writes stand in one \<^verbatim>\<open>try\<close> whose handler is \<^verbatim>\<open>pass\<close>: the first
  write that fails ends them silently, and the files written before it stay.
\<close>

fun write_all :: "filesystem \<Rightarrow> (path \<times> byte list) list \<Rightarrow> filesystem" where
  "write_all f [] = f"
| "write_all f ((p, b) # r) =
     (case write_file f p b of Inl e \<Rightarrow> f | Inr f' \<Rightarrow> write_all f' r)"

definition placeholders :: "path \<Rightarrow> (path \<times> byte list) list" where
  "placeholders base_dir =
     [(base_dir @ [''bootloader'', ''version.txt''],
         encode_utf8 (''GSCX PS3 Bootloader (virtual)'' @ [CHR 0x0A]))]
     @ concat (map (\<lambda>slot. [(base_dir @ [slot, ''lv0.self''], encode_utf8 ''stub''),
                              (base_dir @ [slot, ''appldr.self''], encode_utf8 ''stub'')]) ROS_SLOTS)
     @ [(base_dir @ [''registry'', ''xRegistry.sys''], replicate 1024 0)]"

text \<open>The choice of \<open>base_dir\<close> at the head of \<^verbatim>\<open>initialize_virtual_flash\<close>.\<close>

definition flash_base :: "world \<Rightarrow> (exn + path) \<times> world" where
  "flash_base w =
     (case vflash_dir w of
        Some b \<Rightarrow> (Inr b, w)
      | None \<Rightarrow>
          (case temp_dir w of
             Some t \<Rightarrow> (Inr (t @ [''vflash'']), w\<lparr>vflash_dir := Some (t @ [''vflash''])\<rparr>)
           | None \<Rightarrow>
               (case mkdtemp w of
                  (Inl e, w1) \<Rightarrow> (Inl e, w1)
                | (Inr t, w1) \<Rightarrow>
                    (Inr (t @ [''vflash'']),
                     w1\<lparr>temp_dir := Some t, vflash_dir := Some (t @ [''vflash''])\<rparr>))))"

definition initialize_virtual_flash :: "world \<Rightarrow> vflash_info outcome \<times> world" where
  "initialize_virtual_flash w =
     (case flash_base (called ''initialize_virtual_flash'' w) of
        (Inl e, w1) \<Rightarrow> (Exc e, emit (Fmt ''[VFLASH] Error initializing virtual flash: '' (AExn e)) w1)
      | (Inr base_dir, w1) \<Rightarrow>
          (case makedirs_all (fs w1)
                  (base_dir # map (\<lambda>p. base_dir @ [p]) (PARTITIONS @ ROS_SLOTS @ [''bootloader'', ''registry''])) of
             (Some e, f) \<Rightarrow>
               (Exc e, emit (Fmt ''[VFLASH] Error initializing virtual flash: '' (AExn e)) (w1\<lparr>fs := f\<rparr>))
           | (None, f) \<Rightarrow>
               (let info = \<lparr>ipath = base_dir, partitions = PARTITIONS, ros_slots = map upper ROS_SLOTS\<rparr>
                in (Ret info,
                    emit (Fmt ''[VFLASH] Virtual flash initialized at '' (APath base_dir))
                      (w1\<lparr>fs := write_all f (placeholders base_dir), vflash_info := Some info\<rparr>)))))"

definition get_vflash_info :: "world \<Rightarrow> vflash_info outcome \<times> world" where
  "get_vflash_info w =
     (case vflash_info w of Some info \<Rightarrow> (Ret info, w) | None \<Rightarrow> initialize_virtual_flash w)"

fun comma_join :: "string list \<Rightarrow> string" where
  "comma_join [] = []"
| "comma_join [x] = x"
| "comma_join (x # y # r) = x @ '', '' @ comma_join (y # r)"

definition mount_virtual_flash :: "world \<Rightarrow> bool \<times> world" where
  "mount_virtual_flash w =
     (case get_vflash_info (called ''mount_virtual_flash'' w) of
        (Exc e, w1) \<Rightarrow> (False, emit (Fmt ''[VFLASH] Failed to mount virtual flash: '' (AExn e)) w1)
      | (Ret info, w1) \<Rightarrow>
          (True, emit (Raw (''[VFLASH] Partitions mounted: '' @ comma_join (partitions info))) w1))"

subsection \<open>ROS slot selection and verification\<close>

text \<open>\<^verbatim>\<open>os.path.exists(p) and os.path.getsize(p) > 0\<close>.\<close>

definition nonempty_at :: "world \<Rightarrow> path \<Rightarrow> bool" where
  "nonempty_at w p =
     (path_exists (fs w) p \<and> (case getsize (dir_size w) (fs w) p of Some n \<Rightarrow> 0 < n | None \<Rightarrow> False))"

definition slot_valid :: "world \<Rightarrow> path \<Rightarrow> string \<Rightarrow> bool" where
  "slot_valid w base slot = nonempty_at w (base @ [slot, ''lv0.self''])"

definition candidates :: "string option \<Rightarrow> string list" where
  "candidates preferred =
     (case preferred of
        None \<Rightarrow> [''ros0'', ''ros1'']
      | Some p \<Rightarrow>
          (if p \<in> set [''ros0'', ''ros1''] then [p] @ filter (\<lambda>c. c \<noteq> p) [''ros0'', ''ros1'']
           else [''ros0'', ''ros1'']))"

definition select_ros_slot :: "world \<Rightarrow> string option \<Rightarrow> string option \<times> world" where
  "select_ros_slot w preferred =
     (case get_vflash_info w of
        (Exc e, w1) \<Rightarrow> (None, (emit (Fmt ''[ROS] Error selecting slot: '' (AExn e)) w1)\<lparr>active_ros := None\<rparr>)
      | (Ret info, w1) \<Rightarrow>
          (case find (slot_valid w1 (ipath info)) (candidates preferred) of
             Some slot \<Rightarrow>
               (Some slot, emit (Raw (''[ROS] Selected slot: '' @ upper slot)) (w1\<lparr>active_ros := Some slot\<rparr>))
           | None \<Rightarrow> (None, w1\<lparr>active_ros := None\<rparr>)))"

definition verify_lv0_and_appldr :: "world \<Rightarrow> bool \<times> world" where
  "verify_lv0_and_appldr w =
     (case get_vflash_info w of
        (Exc e, w1) \<Rightarrow> (False, emit (Fmt ''[SEC] Error verifying LV0/Appldr: '' (AExn e)) w1)
      | (Ret info, w1) \<Rightarrow>
          (case active_ros w1 of
             None \<Rightarrow> (False, w1)
           | Some slot \<Rightarrow>
               (if slot = [] then (False, w1)
                else
                  (let ok_lv0 = nonempty_at w1 (ipath info @ [slot, ''lv0.self'']);
                       w2 = (if ok_lv0 then w1 else emit (Raw ''[SEC] LV0 missing or invalid'') w1);
                       ok_appldr = nonempty_at w2 (ipath info @ [slot, ''appldr.self'']);
                       w3 = (if ok_appldr then w2 else emit (Raw ''[SEC] Appldr missing or invalid'') w2)
                   in (ok_lv0 \<and> ok_appldr, w3)))))"

definition validation_steps :: "(string \<times> bool) list" where
  "validation_steps =
     [(''Boot ROM signature'', True), (''LV0 integrity check'', True),
      (''LV1 signature verification'', True), (''LV2 authenticity check'', True),
      (''Hardware authenticity'', True), (''Anti-tampering detection'', True)]"

definition run_step :: "string \<times> bool \<Rightarrow> bool \<times> world \<Rightarrow> bool \<times> world" where
  "run_step st aw =
     (if snd st then (fst aw, emit (Raw (''[SEC] '' @ fst st @ '': PASSED'')) (snd aw))
      else (False, emit (Raw (''[SEC] '' @ fst st @ '': FAILED'')) (snd aw)))"

text \<open>
  \<^verbatim>\<open>validate_boot_chain\<close> in its three parts: the checklist loop, the ROS block
  (selection, verification, and the fallback to the other slot), and the verdict. The ROS
  block receives \<open>all_valid\<close> as the checklist left it and returns it updated.
\<close>

definition ros_fallback :: "string \<Rightarrow> bool \<Rightarrow> world \<Rightarrow> bool \<times> world" where
  "ros_fallback selected all_valid w =
     (case select_ros_slot
             (emit (Raw ''[SEC] LV0/Appldr verification failed for selected ROS'') w)
             (Some (if selected = ''ros0'' then ''ros1'' else ''ros0'')) of
        (None, w1) \<Rightarrow> (False, emit (Raw ''[SEC] Fallback ROS verification failed'') w1)
      | (Some alt, w1) \<Rightarrow>
          (case verify_lv0_and_appldr w1 of
             (True, w2) \<Rightarrow> (all_valid, emit (Raw (''[SEC] Fallback to '' @ upper alt @ '' succeeded'')) w2)
           | (False, w2) \<Rightarrow> (False, emit (Raw ''[SEC] Fallback ROS verification failed'') w2)))"

definition ros_block :: "bool \<Rightarrow> world \<Rightarrow> bool \<times> world" where
  "ros_block all_valid w =
     (case select_ros_slot w None of
        (None, w1) \<Rightarrow> (False, emit (Raw ''[SEC] No valid ROS slot available'') w1)
      | (Some selected, w1) \<Rightarrow>
          (case verify_lv0_and_appldr (emit (Raw (''[SEC] ROS slot selected: '' @ upper selected)) w1) of
             (True, w2) \<Rightarrow> (all_valid, emit (Raw ''[SEC] LV0/Appldr verification: PASSED'') w2)
           | (False, w2) \<Rightarrow> ros_fallback selected all_valid w2))"

definition validate_boot_chain :: "world \<Rightarrow> bool \<times> world" where
  "validate_boot_chain w =
     (case fold run_step validation_steps
             (True, emit (Raw ''[SEC] Starting boot chain validation...'') (called ''validate_boot_chain'' w)) of
        (all_valid0, w1) \<Rightarrow>
          (case ros_block all_valid0 w1 of
             (all_valid, w2) \<Rightarrow>
               (if all_valid
                then (True, emits [Raw ''[SEC] Boot chain validation completed successfully'',
                                   Raw ''[SEC] System integrity verified''] w2)
                else (False, emit (Raw ''[SEC] Boot chain validation failed'') w2))))"

subsection \<open>Boot stages\<close>

text \<open>
  The stage methods look for the first loaded module whose name starts with the stage's
  prefix (the loop returns inside its first match) and call its entry point, typed
  \<^verbatim>\<open>c_bool\<close>. A fault in the native call lands in the method's own handler.
\<close>

definition find_module :: "string \<Rightarrow> world \<Rightarrow> (string \<times> lib) option" where
  "find_module pre w = find (\<lambda>nl. prefix pre (fst nl)) (loaded w)"

definition boot_lv0_stage :: "world \<Rightarrow> bool \<times> world" where
  "boot_lv0_stage w =
     (let w1 = emit (Raw ''[BOOTLOADER] Iniciando LV0 - Primary Kernel...'') (called ''boot_lv0_stage'' w)
      in case find_module ''gscx_bootloader'' w1 of
           None \<Rightarrow> (False, emit (Raw ''[LV0] Bootloader module not loaded'') w1)
         | Some (name, l) \<Rightarrow>
             (case lv0_entry l of
                None \<Rightarrow> (False, emit (Raw ''[LV0] Entry point not found in bootloader module'') w1)
              | Some Throws \<Rightarrow>
                  (False, emit (Fmt ''[LV0] Error during initialization: '' (AExn NativeFault))
                            (called ''GSCX_LV0_Entry'' w1))
              | Some (Returns result) \<Rightarrow>
                  (if result
                   then (True, emits [Raw ''[LV0] Hardware initialization completed'',
                                      Raw ''[LV0] Security validation passed'',
                                      Raw ''[LV0] Memory setup completed''] (called ''GSCX_LV0_Entry'' w1))
                   else (False, emit (Raw ''[LV0] Initialization failed'') (called ''GSCX_LV0_Entry'' w1)))))"

definition boot_lv1_stage :: "world \<Rightarrow> bool \<times> world" where
  "boot_lv1_stage w =
     (let w1 = emit (Raw ''[BOOTLOADER] Iniciando LV1 - Hypervisor...'') (called ''boot_lv1_stage'' w)
      in case find_module ''gscx_hypervisor'' w1 of
           None \<Rightarrow> (False, emit (Raw ''[LV1] Hypervisor module not loaded'') w1)
         | Some (name, l) \<Rightarrow>
             (case lv1_entry l of
                None \<Rightarrow> (False, emit (Raw ''[LV1] Entry point not found in hypervisor module'') w1)
              | Some Throws \<Rightarrow>
                  (False, emit (Fmt ''[LV1] Error during hypervisor initialization: '' (AExn NativeFault))
                            (called ''GSCX_LV1_Entry'' w1))
              | Some (Returns result) \<Rightarrow>
                  (if result
                   then (True, emits [Raw ''[LV1] Hypervisor initialization completed'',
                                      Raw ''[LV1] Virtual memory management active'',
                                      Raw ''[LV1] System services initialized''] (called ''GSCX_LV1_Entry'' w1))
                   else (False, emit (Raw ''[LV1] Hypervisor initialization failed'')
                                  (called ''GSCX_LV1_Entry'' w1)))))"

definition boot_lv2_stage :: "world \<Rightarrow> bool \<times> world" where
  "boot_lv2_stage w =
     (let w1 = emits [Raw ''[BOOTLOADER] Iniciando LV2 - Game OS...'',
                      Raw ''[LV2] Game OS kernel loading...'',
                      Raw ''[LV2] Device drivers initialization...'',
                      Raw ''[LV2] User services startup...'',
                      Raw ''[LV2] XMB preparation...''] (called ''boot_lv2_stage'' w);
          cpu_loaded = list_ex (\<lambda>nl. prefix ''gscx_cpu_cell'' (fst nl)) (loaded w1);
          gpu_loaded = list_ex (\<lambda>nl. prefix ''gscx_gpu_rsx'' (fst nl)) (loaded w1)
      in if cpu_loaded \<and> gpu_loaded
         then (True, emits [Raw ''[LV2] All required modules loaded'',
                            Raw ''[LV2] System ready for game execution''] w1)
         else (False, emit (Raw ''[LV2] Missing required modules (CPU/GPU)'') w1))"

definition initialize_syscon :: "world \<Rightarrow> bool \<times> world" where
  "initialize_syscon w =
     (let w1 = emit (Raw ''[SYSCON] Initializing System Controller...'') (called ''initialize_syscon'' w)
      in case find_module ''gscx_syscon'' w1 of
           None \<Rightarrow>
             (True, emits [Raw ''[SYSCON] Using virtual SYSCON simulation'',
                           Raw ''[SYSCON] Virtual power management active'',
                           Raw ''[SYSCON] Virtual temperature monitoring active''] w1)
         | Some (name, l) \<Rightarrow>
             (case syscon_entry l of
                None \<Rightarrow> (False, emit (Raw ''[SYSCON] Entry point not found'') w1)
              | Some Throws \<Rightarrow>
                  (False, emit (Fmt ''[SYSCON] Error during initialization: '' (AExn NativeFault))
                            (called ''GSCX_SYSCON_Initialize'' w1))
              | Some (Returns result) \<Rightarrow>
                  (if result
                   then (True, emits [Raw ''[SYSCON] Power management initialized'',
                                      Raw ''[SYSCON] Temperature monitoring active'',
                                      Raw ''[SYSCON] Fan control enabled'',
                                      Raw ''[SYSCON] System controller ready'']
                                 (called ''GSCX_SYSCON_Initialize'' w1))
                   else (False, emit (Raw ''[SYSCON] Initialization failed'')
                                  (called ''GSCX_SYSCON_Initialize'' w1)))))"

text \<open>The hardware summary is a constant dictionary of dictionaries.\<close>

definition hardware_info :: "(string \<times> (string \<times> arg) list) list" where
  "hardware_info =
     [(''cpu'', [(''type'', AStr ''Cell Broadband Engine''), (''ppu_cores'', ANat 1),
                 (''spu_cores'', ANat 8), (''frequency'', AStr ''3.2 GHz'')]),
      (''memory'', [(''xdr_ram'', AStr ''256 MB''), (''gddr3_vram'', AStr ''256 MB''),
                    (''total'', AStr ''512 MB'')]),
      (''gpu'', [(''type'', AStr ''RSX Reality Synthesizer''), (''frequency'', AStr ''500 MHz''),
                 (''memory_interface'', AStr ''128-bit GDDR3'')]),
      (''storage'', [(''hdd_interface'', AStr ''SATA''), (''optical_drive'', AStr ''Blu-ray/DVD/CD''),
                     (''flash_memory'', AStr ''NAND/NOR'')]),
      (''connectivity'', [(''ethernet'', AStr ''10/100/1000 Mbps''), (''wifi'', AStr ''802.11b/g (optional)''),
                          (''bluetooth'', AStr ''2.0 + EDR''), (''usb'', AStr ''4x USB 2.0'')])]"

definition perform_hardware_detection :: "world \<Rightarrow> (string \<times> (string \<times> arg) list) list \<times> world" where
  "perform_hardware_detection w =
     (hardware_info,
      emits [Raw ''[HW] Starting hardware detection...'',
             Raw ''[HW] CPU: Cell Broadband Engine'',
             Raw ''[HW] Memory: 512 MB total'',
             Raw ''[HW] GPU: RSX Reality Synthesizer'',
             Raw ''[HW] Storage: Blu-ray/DVD/CD'',
             Raw ''[HW] Hardware detection completed''] (called ''perform_hardware_detection'' w))"

subsection \<open>The full boot sequence\<close>

definition execute_full_boot_sequence :: "world \<Rightarrow> bool \<times> world" where
  "execute_full_boot_sequence w =
     (case perform_hardware_detection (emit (Raw ''[BOOT] Starting complete PS3 boot sequence...'') w) of
        (hw, w1) \<Rightarrow>
     if hw = [] then (False, emit (Raw ''[BOOT] Hardware detection failed'') w1) else
     (case initialize_syscon w1 of (ok_syscon, w2) \<Rightarrow>
     if \<not> ok_syscon then (False, emit (Raw ''[BOOT] SYSCON initialization failed'') w2) else
     (case validate_boot_chain w2 of (ok_chain, w3) \<Rightarrow>
     if \<not> ok_chain then (False, emit (Raw ''[BOOT] Boot chain validation failed'') w3) else
     (case initialize_virtual_flash
             (emit (Raw ''[BOOT] Initializing virtual flash (NAND/NOR emulation)...'') w3) of
        (Exc e, w4) \<Rightarrow> (False, emit (Fmt ''[BOOT] Virtual flash initialization error: '' (AExn e)) w4)
      | (Ret vinfo, w4) \<Rightarrow>
     (case mount_virtual_flash w4 of (ok_mount, w5) \<Rightarrow>
     if \<not> ok_mount then (False, emit (Raw ''[BOOT] Virtual flash mount failed'') w5) else
     (case boot_lv0_stage (emit (Fmt ''[BOOT] Virtual flash ready at '' (APath (ipath vinfo))) w5) of
        (ok_lv0, w6) \<Rightarrow>
     if \<not> ok_lv0 then (False, emit (Raw ''[BOOT] LV0 stage failed'') w6) else
     (case boot_lv1_stage w6 of (ok_lv1, w7) \<Rightarrow>
     if \<not> ok_lv1 then (False, emit (Raw ''[BOOT] LV1 stage failed'') w7) else
     (case boot_lv2_stage w7 of (ok_lv2, w8) \<Rightarrow>
     if \<not> ok_lv2 then (False, emit (Raw ''[BOOT] LV2 stage failed'') w8) else
     (True, emits [Raw ''[BOOT] Complete boot sequence finished successfully'',
                   Raw ''[BOOT] PS3 system ready for operation''] w8)))))))))"

subsection \<open>Flash maintenance\<close>

text \<open>
  The body of the deletion loops of \<^verbatim>\<open>format_virtual_flash\<close> and
  \<^verbatim>\<open>clean_vflash_partition\<close>: whatever goes wrong with one entry is swallowed
  (\<^verbatim>\<open>except Exception: pass\<close>) and nothing is logged.
\<close>

definition delete_entry :: "path \<Rightarrow> string \<Rightarrow> world \<Rightarrow> world" where
  "delete_entry d name w =
     (if isdir (fs w) (d @ [name]) then w\<lparr>fs := rmtree (fs w) (locked w) (d @ [name])\<rparr>
      else case os_remove (fs w) (locked w) (d @ [name]) of
             Inl e \<Rightarrow> w
           | Inr f \<Rightarrow> w\<lparr>fs := f\<rparr>)"

definition format_virtual_flash :: "world \<Rightarrow> vflash_info outcome \<times> world" where
  "format_virtual_flash w =
     (case get_vflash_info w of
        (Exc e, w1) \<Rightarrow> (Exc e, w1)
      | (Ret info, w1) \<Rightarrow>
          (case listdir (fs w1) (ipath info) of
             Inl e \<Rightarrow> (Exc e, emit (Fmt ''[VFLASH] Error formatting virtual flash: '' (AExn e)) w1)
           | Inr names \<Rightarrow>
               (case initialize_virtual_flash
                       ((fold (delete_entry (ipath info)) names w1)\<lparr>vflash_info := None\<rparr>) of
                  (Exc e, w2) \<Rightarrow>
                    (Exc e, emit (Fmt ''[VFLASH] Error formatting virtual flash: '' (AExn e)) w2)
                | (Ret new_info, w2) \<Rightarrow>
                    (Ret new_info,
                     emit (Raw ''[VFLASH] Virtual flash formatted'') (snd (mount_virtual_flash w2))))))"

definition clean_vflash_partition :: "world \<Rightarrow> string \<Rightarrow> (bool outcome \<times> world) option" where
  "clean_vflash_partition w part =
     (case get_vflash_info w of
        (Exc e, w1) \<Rightarrow> Some (Exc e, w1)
      | (Ret info, w1) \<Rightarrow>
          (case join_name (ipath info) part of
             None \<Rightarrow> None
           | Some target \<Rightarrow>
               (if \<not> isdir (fs w1) target
                then Some (Ret False, emit (Raw (''[VFLASH] Partition not found: '' @ part)) w1)
                else case listdir (fs w1) target of
                       Inl e \<Rightarrow>
                         Some (Ret False,
                               emit (Fmt (''[VFLASH] Error cleaning partition '' @ part @ '': '') (AExn e)) w1)
                     | Inr names \<Rightarrow>
                         Some (Ret True,
                               emit (Raw (''[VFLASH] Partition cleaned: '' @ part))
                                 (fold (delete_entry target) names w1)))))"

subsection \<open>Recovery\<close>

definition RECOVERY_PUP :: string where
  "RECOVERY_PUP = ''GSCX_RECOVERY_PUP''"

definition render :: "path \<Rightarrow> string" where
  "render p = concat (map (\<lambda>c. CHR ''/'' # c) p)"

text \<open>\<^verbatim>\<open>if 'GSCX_RECOVERY_PUP' in os.environ: del os.environ['GSCX_RECOVERY_PUP']\<close>\<close>

definition clear_binding :: "world \<Rightarrow> world" where
  "clear_binding w = (if env w RECOVERY_PUP \<noteq> None then w\<lparr>env := (env w)(RECOVERY_PUP := None)\<rparr> else w)"

text \<open>
  The arguments \<^verbatim>\<open>pup_path\<close> and \<^verbatim>\<open>usb_dir\<close> are resolved paths; \<open>None\<close> stands for
  Python's \<^verbatim>\<open>None\<close> and for the empty string, which the tests \<^verbatim>\<open>if pup_path\<close> and
  \<^verbatim>\<open>if usb_dir\<close> treat alike. The target directory is \<^verbatim>\<open>usb_dir\<close>, created if missing,
  or a fresh temporary directory.
\<close>

definition usb_target :: "world \<Rightarrow> path option \<Rightarrow> (exn + path) \<times> world" where
  "usb_target w usb_dir =
     (case usb_dir of
        Some u \<Rightarrow> (case makedirs (fs w) u of Inl e \<Rightarrow> (Inl e, w) | Inr f \<Rightarrow> (Inr u, w\<lparr>fs := f\<rparr>))
      | None \<Rightarrow>
          (case mkdtemp w of
             (Inl e, w1) \<Rightarrow> (Inl e, w1)
           | (Inr d, w1) \<Rightarrow> (Inr d, w1\<lparr>vusb_dir := Some d\<rparr>)))"

text \<open>The first \<^verbatim>\<open>try\<close> of \<^verbatim>\<open>boot_recovery\<close>: its handler logs and re-raises.\<close>

definition provision :: "world \<Rightarrow> path \<Rightarrow> path option \<Rightarrow> exn option \<times> world" where
  "provision w pup_path usb_dir =
     (case usb_target w usb_dir of
        (Inl e, w1) \<Rightarrow> (Some e, emit (Tr ''modules.recovery.prepare_fail'' [(''error'', AExn e)]) w1)
      | (Inr target_dir, w1) \<Rightarrow>
          (case copy2 (fs w1) pup_path (target_dir @ [''PS3UPDAT.PUP'']) of
             Inl e \<Rightarrow> (Some e, emit (Tr ''modules.recovery.prepare_fail'' [(''error'', AExn e)]) w1)
           | Inr f \<Rightarrow>
               (None,
                emits [Tr ''modules.recovery.prepared'' [(''path'', APath target_dir)],
                       Tr ''modules.recovery.copied'' [(''dest'', APath (target_dir @ [''PS3UPDAT.PUP'']))]]
                  (w1\<lparr>fs := f,
                      env := (env w1)(RECOVERY_PUP \<mapsto> render (target_dir @ [''PS3UPDAT.PUP''])),
                      last_usb_dir := Some target_dir\<rparr>))))"

text \<open>The body of the second \<^verbatim>\<open>try\<close>: the call into the recovery module.\<close>

definition call_recovery_entry :: "world \<Rightarrow> unit outcome \<times> world" where
  "call_recovery_entry w =
     (case find_module ''gscx_recovery'' w of
        None \<Rightarrow> (Ret (), w)
      | Some (name, l) \<Rightarrow>
          (case recovery_entry l of
             None \<Rightarrow> (Ret (), emit (Tr ''modules.recovery.missing_entry'' []) w)
           | Some Throws \<Rightarrow>
               (Exc NativeFault, called ''GSCX_RecoveryEntry'' (emit (Tr ''modules.recovery.calling'' []) w))
           | Some (Returns u) \<Rightarrow>
               (Ret (), emit (Tr ''modules.recovery.finished'' [])
                          (called ''GSCX_RecoveryEntry'' (emit (Tr ''modules.recovery.calling'' []) w)))))"

definition boot_recovery :: "world \<Rightarrow> path option \<Rightarrow> path option \<Rightarrow> unit outcome \<times> world" where
  "boot_recovery w pup_path usb_dir =
     (case (case pup_path of
              Some pp \<Rightarrow> provision w pp usb_dir
            | None \<Rightarrow> (None, clear_binding w)) of
        (Some e, w1) \<Rightarrow> (Exc e, w1)
      | (None, w1) \<Rightarrow>
          (case call_recovery_entry w1 of (r, w2) \<Rightarrow> (r, clear_binding w2)))"

subsection \<open>Example states\<close>

text \<open>
  A loader as \<^verbatim>\<open>ModulesLoader(on_log)\<close> leaves it, in a process whose file system holds
  an empty \<^verbatim>\<open>/tmp\<close> and where no file loads as a native library.
\<close>

definition new_loader :: world where
  "new_loader =
     \<lparr>on_log = True, loaded = [], temp_dir = None, vusb_dir = None, last_usb_dir = None,
      vflash_dir = None, vflash_info = None, active_ros = None,
      fs = [([''tmp''], Dir)], locked = [], dir_size = 4096,
      tmp_supply = [[''tmp'', ''gscx_a''], [''tmp'', ''gscx_b'']],
      windll = (\<lambda>_. None), env = (\<lambda>_. None), log = [], trace = []\<rparr>"

definition short_bundle_world :: world where
  "short_bundle_world =
     new_loader\<lparr>fs := [([''tmp''], Dir), ([''tmp'', ''b.gscb''], File [0x52, 0x43, 0x53])]\<rparr>"

definition zero_magic_world :: world where
  "zero_magic_world =
     new_loader\<lparr>fs := [([''tmp''], Dir), ([''tmp'', ''z.gscb''], File [0, 0, 0, 0, 1, 0, 0, 0])]\<rparr>"

text \<open>
  The state after \<^verbatim>\<open>initialize_virtual_flash\<close> on a new loader: the layout under
  \<^verbatim>\<open>/tmp/gscx_a/vflash\<close> with its seven directories and six placeholder files, recorded
  in \<^verbatim>\<open>_vflash_info\<close>. In \<open>ros0_emptied_world\<close> the LV0 stub of ROS0 has been emptied.
\<close>

definition flash_base_dir :: path where
  "flash_base_dir = [''tmp'', ''gscx_a'', ''vflash'']"

definition flash_info :: vflash_info where
  "flash_info = \<lparr>ipath = flash_base_dir, partitions = PARTITIONS, ros_slots = map upper ROS_SLOTS\<rparr>"

definition flash_fs :: filesystem where
  "flash_fs =
     [([''tmp''], Dir), ([''tmp'', ''gscx_a''], Dir), (flash_base_dir, Dir)]
     @ map (\<lambda>d. (flash_base_dir @ [d], Dir)) (PARTITIONS @ ROS_SLOTS @ [''bootloader'', ''registry''])
     @ map (\<lambda>pb. (fst pb, File (snd pb))) (placeholders flash_base_dir)"

definition flash_world :: world where
  "flash_world =
     new_loader\<lparr>temp_dir := Some [''tmp'', ''gscx_a''], vflash_dir := Some flash_base_dir,
                vflash_info := Some flash_info, fs := flash_fs, tmp_supply := [[''tmp'', ''gscx_b'']]\<rparr>"

definition ros0_emptied_world :: world where
  "ros0_emptied_world =
     flash_world\<lparr>fs := store flash_fs (flash_base_dir @ [''ros0'', ''lv0.self'']) (File [])\<rparr>"

text \<open>In \<open>both_emptied_world\<close> the LV0 stubs of both slots have been emptied.\<close>

definition both_emptied_world :: world where
  "both_emptied_world =
     flash_world\<lparr>fs := store (store flash_fs (flash_base_dir @ [''ros0'', ''lv0.self'']) (File []))
                              (flash_base_dir @ [''ros1'', ''lv0.self'']) (File [])\<rparr>"

section \<open>Properties\<close>

subsection \<open>Logging leaves everything but the log alone\<close>

lemma emit_fields [simp]:
  "fs (emit m w) = fs w" "temp_dir (emit m w) = temp_dir w" "loaded (emit m w) = loaded w"
  "env (emit m w) = env w" "vflash_info (emit m w) = vflash_info w"
  "active_ros (emit m w) = active_ros w" "trace (emit m w) = trace w"
  "locked (emit m w) = locked w" "dir_size (emit m w) = dir_size w"
  "vflash_dir (emit m w) = vflash_dir w" "tmp_supply (emit m w) = tmp_supply w"
  "on_log (emit m w) = on_log w" "vusb_dir (emit m w) = vusb_dir w"
  "last_usb_dir (emit m w) = last_usb_dir w" "windll (emit m w) = windll w"
  by (simp_all add: emit_def)

subsection \<open>Malformed headers\<close>

lemma load_short_header:
  assumes "lookup (fs w) bundle_path = Some (File data)" and "length data < 8"
  shows "load_from_gscore w bundle_path =
           Some (Ret (), emit (Tr ''modules.bundle_invalid_header'' []) w)"
  using assms by (simp add: load_from_gscore_def)

lemma unpack_IHH_header:
  "8 \<le> length data \<Longrightarrow>
     unpack_IHH data 0 =
       Some (le_uint (pyslice data 0 4), le_uint (pyslice data 4 6), le_uint (pyslice data 6 8))"
  by (simp add: unpack_IHH_def)

lemma load_bad_magic:
  assumes "lookup (fs w) bundle_path = Some (File data)" and "8 \<le> length data"
    and "le_uint (pyslice data 0 4) \<noteq> MAGIC"
  shows "load_from_gscore w bundle_path =
           Some (Ret (), emit (Tr ''modules.bundle_magic_invalid'' []) w)"
  using assms by (simp add: load_from_gscore_def unpack_IHH_header)

text \<open>
  Claim C1, as the code has it. A bundle file with fewer than 8 bytes, or whose first four
  bytes do not decode (little-endian) to \<open>0x47534352\<close>, makes \<^verbatim>\<open>load_from_gscore\<close>
  log one line and return to its caller normally: it raises nothing. No entry is
  extracted: the file system, the staging directory and the set of loaded modules are as
  before, the log line being the only change of state.
\<close>

theorem load_from_gscore_bad_header:
  assumes "lookup (fs w) bundle_path = Some (File data)"
    and "length data < 8 \<or> le_uint (pyslice data 0 4) \<noteq> MAGIC"
  shows "\<exists>w'. load_from_gscore w bundle_path = Some (Ret (), w')
           \<and> w' = emit (Tr (if length data < 8 then ''modules.bundle_invalid_header''
                             else ''modules.bundle_magic_invalid'') []) w
           \<and> fs w' = fs w \<and> temp_dir w' = temp_dir w \<and> loaded w' = loaded w"
proof (cases "length data < 8")
  case True
  with load_short_header [OF assms(1)] show ?thesis by simp
next
  case False
  with assms(2) have "le_uint (pyslice data 0 4) \<noteq> MAGIC" and "8 \<le> length data" by simp_all
  with load_bad_magic [OF assms(1)] False show ?thesis by simp
qed

lemma zero_magic_lookup:
  "lookup (fs zero_magic_world) [''tmp'', ''z.gscb''] = Some (File [0, 0, 0, 0, 1, 0, 0, 0])"
  by (simp add: zero_magic_world_def new_loader_def lookup_def)

lemma zero_magic_value: "le_uint (pyslice [0, 0, 0, 0, 1, 0, 0, 0] 0 4) \<noteq> MAGIC"
  by (simp add: le_uint_def pyslice_def MAGIC_def)

theorem load_from_gscore_bad_header_witness:
  "lookup (fs zero_magic_world) [''tmp'', ''z.gscb''] = Some (File [0, 0, 0, 0, 1, 0, 0, 0])
   \<and> le_uint (pyslice [0, 0, 0, 0, 1, 0, 0, 0] 0 4) \<noteq> MAGIC
   \<and> load_from_gscore zero_magic_world [''tmp'', ''z.gscb''] =
       Some (Ret (), emit (Tr ''modules.bundle_magic_invalid'' []) zero_magic_world)"
  using load_from_gscore_bad_header [OF zero_magic_lookup disjI2 [OF zero_magic_value]]
        zero_magic_lookup zero_magic_value
  by simp

text \<open>
  The claim as stated asks for an exception raised to the caller. At a three-byte bundle
  the call returns normally, having logged the invalid-header line.
\<close>

theorem load_from_gscore_short_returns:
  "load_from_gscore short_bundle_world [''tmp'', ''b.gscb''] =
     Some (Ret (), emit (Tr ''modules.bundle_invalid_header'' []) short_bundle_world)"
proof -
  have "lookup (fs short_bundle_world) [''tmp'', ''b.gscb''] = Some (File [0x52, 0x43, 0x53])"
    by (simp add: short_bundle_world_def new_loader_def lookup_def)
  from load_short_header [OF this] show ?thesis by simp
qed

subsection \<open>State bookkeeping\<close>

lemma called_fields [simp]:
  "fs (called n w) = fs w" "temp_dir (called n w) = temp_dir w" "loaded (called n w) = loaded w"
  "env (called n w) = env w" "vflash_info (called n w) = vflash_info w"
  "active_ros (called n w) = active_ros w" "log (called n w) = log w"
  "locked (called n w) = locked w" "dir_size (called n w) = dir_size w"
  "vflash_dir (called n w) = vflash_dir w" "tmp_supply (called n w) = tmp_supply w"
  "on_log (called n w) = on_log w" "vusb_dir (called n w) = vusb_dir w"
  "last_usb_dir (called n w) = last_usb_dir w" "windll (called n w) = windll w"
  by (simp_all add: called_def)

lemma emits_Nil [simp]: "emits [] w = w"
  by (simp add: emits_def)

lemma emits_Cons [simp]: "emits (m # ms) w = emits ms (emit m w)"
  by (simp add: emits_def)

lemma emits_fields [simp]:
  "fs (emits ms w) = fs w" "vflash_info (emits ms w) = vflash_info w"
  "active_ros (emits ms w) = active_ros w" "dir_size (emits ms w) = dir_size w"
  "loaded (emits ms w) = loaded w" "trace (emits ms w) = trace w" "env (emits ms w) = env w"
  "locked (emits ms w) = locked w" "temp_dir (emits ms w) = temp_dir w"
  "vflash_dir (emits ms w) = vflash_dir w" "on_log (emits ms w) = on_log w"
  by (induction ms arbitrary: w) simp_all

lemma nonempty_at_iff:
  "nonempty_at w p =
     (case lookup (fs w) p of None \<Rightarrow> False | Some Dir \<Rightarrow> 0 < dir_size w | Some (File b) \<Rightarrow> b \<noteq> [])"
  by (simp add: nonempty_at_def path_exists_def getsize_def split: option.splits node.splits)

lemma nonempty_at_emit [simp]: "nonempty_at (emit m w) p = nonempty_at w p"
  by (simp add: nonempty_at_def)

lemma nonempty_at_cong:
  "fs w' = fs w \<Longrightarrow> dir_size w' = dir_size w \<Longrightarrow> nonempty_at w' p = nonempty_at w p"
  by (simp add: nonempty_at_def)

lemma get_vflash_info_cached:
  "vflash_info w = Some info \<Longrightarrow> get_vflash_info w = (Ret info, w)"
  by (simp add: get_vflash_info_def)

subsection \<open>ROS slot selection\<close>

lemma candidates_cases:
  "candidates preferred =
     (case preferred of
        None \<Rightarrow> [''ros0'', ''ros1'']
      | Some p \<Rightarrow> if p = ''ros1'' then [''ros1'', ''ros0''] else [''ros0'', ''ros1''])"
  by (simp add: candidates_def split: option.splits)

lemma candidates_pair: "\<exists>a b. candidates preferred = [a, b]"
  by (simp add: candidates_cases split: option.splits)

lemma select_ros_slot_eval:
  assumes "get_vflash_info w = (Ret info, w1)" and "candidates preferred = [a, b]"
  shows "select_ros_slot w preferred =
           (if slot_valid w1 (ipath info) a
            then (Some a, emit (Raw (''[ROS] Selected slot: '' @ upper a)) (w1\<lparr>active_ros := Some a\<rparr>))
            else if slot_valid w1 (ipath info) b
            then (Some b, emit (Raw (''[ROS] Selected slot: '' @ upper b)) (w1\<lparr>active_ros := Some b\<rparr>))
            else (None, w1\<lparr>active_ros := None\<rparr>))"
  using assms by (simp add: select_ros_slot_def)

text \<open>
  Claim C4. Once the layout is known (\<^verbatim>\<open>get_vflash_info\<close> returned it), the candidates
  are the preferred slot followed by the other one when the preference is \<^verbatim>\<open>ros0\<close> or
  \<^verbatim>\<open>ros1\<close>, and \<^verbatim>\<open>ros0\<close>, \<^verbatim>\<open>ros1\<close> otherwise; a slot is valid exactly when its
  \<^verbatim>\<open>lv0.self\<close> exists with non-zero size; the result is the first valid candidate, or no
  slot when neither is valid; and the active slot is set to the result, so it is cleared
  when there is none.
\<close>

theorem select_ros_slot_spec:
  assumes "get_vflash_info w = (Ret info, w1)"
  shows "candidates preferred =
           (case preferred of
              None \<Rightarrow> [''ros0'', ''ros1'']
            | Some p \<Rightarrow> if p = ''ros1'' then [''ros1'', ''ros0''] else [''ros0'', ''ros1''])
         \<and> (\<forall>slot. slot_valid w1 (ipath info) slot =
              (case lookup (fs w1) (ipath info @ [slot, ''lv0.self'']) of
                 None \<Rightarrow> False | Some Dir \<Rightarrow> 0 < dir_size w1 | Some (File b) \<Rightarrow> b \<noteq> []))
         \<and> fst (select_ros_slot w preferred) =
             (if slot_valid w1 (ipath info) (candidates preferred ! 0) then Some (candidates preferred ! 0)
              else if slot_valid w1 (ipath info) (candidates preferred ! 1) then Some (candidates preferred ! 1)
              else None)
         \<and> active_ros (snd (select_ros_slot w preferred)) = fst (select_ros_slot w preferred)"
proof -
  from candidates_pair obtain a b where ab: "candidates preferred = [a, b]" by blast
  show ?thesis
    using select_ros_slot_eval [OF assms ab]
    by (simp add: candidates_cases [symmetric] ab slot_valid_def nonempty_at_iff)
qed

lemma select_cached:
  assumes "vflash_info w = Some info"
  shows "select_ros_slot w preferred =
           (if slot_valid w (ipath info) (candidates preferred ! 0)
            then (Some (candidates preferred ! 0),
                  emit (Raw (''[ROS] Selected slot: '' @ upper (candidates preferred ! 0)))
                    (w\<lparr>active_ros := Some (candidates preferred ! 0)\<rparr>))
            else if slot_valid w (ipath info) (candidates preferred ! 1)
            then (Some (candidates preferred ! 1),
                  emit (Raw (''[ROS] Selected slot: '' @ upper (candidates preferred ! 1)))
                    (w\<lparr>active_ros := Some (candidates preferred ! 1)\<rparr>))
            else (None, w\<lparr>active_ros := None\<rparr>))"
proof -
  from candidates_pair obtain a b where ab: "candidates preferred = [a, b]" by blast
  show ?thesis
    using select_ros_slot_eval [OF get_vflash_info_cached [OF assms] ab] by (simp add: ab)
qed

lemma verify_cached_eq:
  assumes "vflash_info w = Some info" and "active_ros w = Some slot" and "slot \<noteq> []"
  shows "verify_lv0_and_appldr w =
           (nonempty_at w (ipath info @ [slot, ''lv0.self''])
              \<and> nonempty_at w (ipath info @ [slot, ''appldr.self'']),
            (if nonempty_at w (ipath info @ [slot, ''appldr.self'']) then (\<lambda>x. x)
             else emit (Raw ''[SEC] Appldr missing or invalid''))
              ((if nonempty_at w (ipath info @ [slot, ''lv0.self'']) then (\<lambda>x. x)
                else emit (Raw ''[SEC] LV0 missing or invalid'')) w))"
  using assms
  by (simp add: verify_lv0_and_appldr_def get_vflash_info_cached Let_def)

lemma fold_validation_steps:
  "fold run_step validation_steps (b, w) =
     (b, emits (map (\<lambda>st. Raw (''[SEC] '' @ fst st @ '': PASSED'')) validation_steps) w)"
  by (simp add: validation_steps_def run_step_def)

subsection \<open>Facts about the example flash states\<close>

lemma ros0_emptied_facts:
  "vflash_info ros0_emptied_world = Some flash_info"
  "ipath flash_info = flash_base_dir"
  "lookup (fs ros0_emptied_world) (flash_base_dir @ [''ros0'', ''lv0.self'']) = Some (File [])"
  "lookup (fs ros0_emptied_world) (flash_base_dir @ [''ros1'', ''lv0.self'']) = Some (File (encode_utf8 ''stub''))"
  "lookup (fs ros0_emptied_world) (flash_base_dir @ [''ros1'', ''appldr.self'']) = Some (File (encode_utf8 ''stub''))"
  by (simp_all add: ros0_emptied_world_def flash_world_def new_loader_def flash_info_def flash_fs_def
        placeholders_def store_def lookup_def PARTITIONS_def ROS_SLOTS_def flash_base_dir_def)

lemma stub_nonempty: "encode_utf8 ''stub'' \<noteq> []"
  by (simp add: encode_utf8_def)

theorem select_ros_slot_spec_witness:
  "get_vflash_info ros0_emptied_world = (Ret flash_info, ros0_emptied_world)
   \<and> fst (select_ros_slot ros0_emptied_world None) = Some ''ros1''
   \<and> active_ros (snd (select_ros_slot ros0_emptied_world None)) = Some ''ros1''"
proof -
  have g: "get_vflash_info ros0_emptied_world = (Ret flash_info, ros0_emptied_world)"
    by (rule get_vflash_info_cached) (rule ros0_emptied_facts)
  show ?thesis
    using select_ros_slot_spec [OF g, of None] g
    by (simp add: ros0_emptied_facts stub_nonempty)
qed

subsection \<open>Boot chain validation\<close>

lemma ros_block_second_slot:
  assumes c: "vflash_info w = Some info"
    and v0: "\<not> slot_valid w (ipath info) ''ros0''"
    and n1: "nonempty_at w (ipath info @ [''ros1'', ''lv0.self''])"
    and n2: "nonempty_at w (ipath info @ [''ros1'', ''appldr.self''])"
  shows "fst (ros_block b w) = b" and "active_ros (snd (ros_block b w)) = Some ''ros1''"
proof -
  define w1 where "w1 = emit (Raw (''[SEC] ROS slot selected: '' @ upper ''ros1''))
       (emit (Raw (''[ROS] Selected slot: '' @ upper ''ros1'')) (w\<lparr>active_ros := Some ''ros1''\<rparr>))"
  have sel: "select_ros_slot w None =
       (Some ''ros1'', emit (Raw (''[ROS] Selected slot: '' @ upper ''ros1'')) (w\<lparr>active_ros := Some ''ros1''\<rparr>))"
    using v0 n1 by (simp add: select_cached [OF c] candidates_cases slot_valid_def)
  have st: "vflash_info w1 = Some info" "active_ros w1 = Some ''ros1''"
    "fs w1 = fs w" "dir_size w1 = dir_size w"
    by (simp_all add: w1_def c)
  have n: "nonempty_at w1 (ipath info @ [''ros1'', ''lv0.self''])"
          "nonempty_at w1 (ipath info @ [''ros1'', ''appldr.self''])"
    using n1 n2 by (simp_all add: nonempty_at_cong [OF st(3) st(4)])
  have ver: "verify_lv0_and_appldr w1 = (True, w1)"
    using n by (simp add: verify_cached_eq [OF st(1) st(2)])
  have "ros_block b w = (b, emit (Raw ''[SEC] LV0/Appldr verification: PASSED'') w1)"
    using ver by (simp add: ros_block_def sel w1_def)
  then show "fst (ros_block b w) = b" and "active_ros (snd (ros_block b w)) = Some ''ros1''"
    by (simp_all add: st)
qed

lemma ros_block_no_slot:
  assumes c: "vflash_info w = Some info"
    and v0: "\<not> slot_valid w (ipath info) ''ros0''" and v1: "\<not> slot_valid w (ipath info) ''ros1''"
  shows "fst (ros_block b w) = False" and "active_ros (snd (ros_block b w)) = None"
proof -
  have sel: "select_ros_slot w None = (None, w\<lparr>active_ros := None\<rparr>)"
    using v0 v1 by (simp add: select_cached [OF c] candidates_cases)
  show "fst (ros_block b w) = False" and "active_ros (snd (ros_block b w)) = None"
    by (simp_all add: ros_block_def sel)
qed

lemma validate_by_ros_block:
  "fst (validate_boot_chain w) =
     fst (ros_block True (emits (map (\<lambda>st. Raw (''[SEC] '' @ fst st @ '': PASSED'')) validation_steps)
            (emit (Raw ''[SEC] Starting boot chain validation...'') (called ''validate_boot_chain'' w))))"
  "active_ros (snd (validate_boot_chain w)) =
     active_ros (snd (ros_block True (emits (map (\<lambda>st. Raw (''[SEC] '' @ fst st @ '': PASSED'')) validation_steps)
            (emit (Raw ''[SEC] Starting boot chain validation...'') (called ''validate_boot_chain'' w)))))"
  unfolding validate_boot_chain_def fold_validation_steps
  by (simp_all add: case_prod_beta)

text \<open>
  Claim C3. With a recorded layout: if the \<^verbatim>\<open>lv0.self\<close> of \<open>ros0\<close> is missing or an empty
  file while the \<^verbatim>\<open>lv0.self\<close> and \<^verbatim>\<open>appldr.self\<close> of \<open>ros1\<close> are non-empty files, then
  \<^verbatim>\<open>validate_boot_chain\<close> returns true and leaves \<open>ros1\<close> as the active slot; if neither
  slot is valid (no non-empty \<^verbatim>\<open>lv0.self\<close>), it returns false and the active slot is none.
\<close>

theorem validate_boot_chain_fallback:
  assumes c: "vflash_info w = Some info"
  shows "(lookup (fs w) (ipath info @ [''ros0'', ''lv0.self'']) \<in> {None, Some (File [])}
          \<and> (\<exists>b. b \<noteq> [] \<and> lookup (fs w) (ipath info @ [''ros1'', ''lv0.self'']) = Some (File b))
          \<and> (\<exists>b. b \<noteq> [] \<and> lookup (fs w) (ipath info @ [''ros1'', ''appldr.self'']) = Some (File b))
          \<longrightarrow> fst (validate_boot_chain w) = True
              \<and> active_ros (snd (validate_boot_chain w)) = Some ''ros1'')
       \<and> (\<not> slot_valid w (ipath info) ''ros0'' \<and> \<not> slot_valid w (ipath info) ''ros1''
          \<longrightarrow> fst (validate_boot_chain w) = False
              \<and> active_ros (snd (validate_boot_chain w)) = None)"
proof -
  define w1 where "w1 = emits (map (\<lambda>st. Raw (''[SEC] '' @ fst st @ '': PASSED'')) validation_steps)
            (emit (Raw ''[SEC] Starting boot chain validation...'') (called ''validate_boot_chain'' w))"
  have st: "vflash_info w1 = Some info" "fs w1 = fs w" "dir_size w1 = dir_size w"
    by (simp_all add: w1_def c)
  have ne: "\<And>p. nonempty_at w1 p = nonempty_at w p"
    by (rule nonempty_at_cong [OF st(2) st(3)])
  have v: "fst (validate_boot_chain w) = fst (ros_block True w1)"
          "active_ros (snd (validate_boot_chain w)) = active_ros (snd (ros_block True w1))"
    unfolding w1_def by (rule validate_by_ros_block)+
  show ?thesis
  proof (intro conjI impI)
    assume a: "lookup (fs w) (ipath info @ [''ros0'', ''lv0.self'']) \<in> {None, Some (File [])}
          \<and> (\<exists>b. b \<noteq> [] \<and> lookup (fs w) (ipath info @ [''ros1'', ''lv0.self'']) = Some (File b))
          \<and> (\<exists>b. b \<noteq> [] \<and> lookup (fs w) (ipath info @ [''ros1'', ''appldr.self'']) = Some (File b))"
    have v0: "\<not> slot_valid w1 (ipath info) ''ros0''"
      unfolding slot_valid_def ne using a by (auto simp add: nonempty_at_iff)
    have n1: "nonempty_at w1 (ipath info @ [''ros1'', ''lv0.self''])"
      unfolding ne using a by (auto simp add: nonempty_at_iff)
    have n2: "nonempty_at w1 (ipath info @ [''ros1'', ''appldr.self''])"
      unfolding ne using a by (auto simp add: nonempty_at_iff)
    show "fst (validate_boot_chain w) = True"
      by (simp only: v ros_block_second_slot(1) [OF st(1) v0 n1 n2])
    show "active_ros (snd (validate_boot_chain w)) = Some ''ros1''"
      by (simp only: v ros_block_second_slot(2) [OF st(1) v0 n1 n2])
  next
    assume a: "\<not> slot_valid w (ipath info) ''ros0'' \<and> \<not> slot_valid w (ipath info) ''ros1''"
    have v0: "\<not> slot_valid w1 (ipath info) ''ros0''" and v1: "\<not> slot_valid w1 (ipath info) ''ros1''"
      using a by (simp_all add: slot_valid_def ne)
    show "fst (validate_boot_chain w) = False"
      by (simp only: v ros_block_no_slot(1) [OF st(1) v0 v1])
    show "active_ros (snd (validate_boot_chain w)) = None"
      by (simp only: v ros_block_no_slot(2) [OF st(1) v0 v1])
  qed
qed

lemma both_emptied_facts:
  "vflash_info both_emptied_world = Some flash_info"
  "lookup (fs both_emptied_world) (flash_base_dir @ [''ros0'', ''lv0.self'']) = Some (File [])"
  "lookup (fs both_emptied_world) (flash_base_dir @ [''ros1'', ''lv0.self'']) = Some (File [])"
  by (simp_all add: both_emptied_world_def flash_world_def new_loader_def flash_info_def
        store_def lookup_def flash_base_dir_def)

theorem validate_boot_chain_fallback_witness:
  "fst (validate_boot_chain ros0_emptied_world) = True
   \<and> active_ros (snd (validate_boot_chain ros0_emptied_world)) = Some ''ros1''
   \<and> fst (validate_boot_chain both_emptied_world) = False
   \<and> active_ros (snd (validate_boot_chain both_emptied_world)) = None"
  using validate_boot_chain_fallback [OF ros0_emptied_facts(1)]
        validate_boot_chain_fallback [OF both_emptied_facts(1)]
  by (simp add: ros0_emptied_facts stub_nonempty both_emptied_facts slot_valid_def nonempty_at_iff)

subsection \<open>File system facts\<close>

lemma map_of_filter_neq:
  "map_of (filter (\<lambda>e. fst e \<noteq> p) f) q = (if q = p then None else map_of f q)"
  by (induction f) auto

lemma lookup_Nil: "lookup f [] = Some Dir"
  by (simp add: lookup_def)

lemma lookup_store:
  "lookup (store f p n) q = (if q = [] then Some Dir else if q = p then Some n else lookup f q)"
  by (simp add: lookup_def store_def map_of_filter_neq)

lemma makedirs_from_other:
  "makedirs_from f pre cs = Inr f' \<Longrightarrow> \<not> prefix q (pre @ cs) \<Longrightarrow> lookup f' q = lookup f q"
proof (induction cs arbitrary: f pre)
  case Nil
  then show ?case by simp
next
  case (Cons c cs)
  have np: "\<not> prefix q ((pre @ [c]) @ cs)" using Cons.prems(2) by simp
  have ne: "q \<noteq> pre @ [c]" using Cons.prems(2) by auto
  show ?case
  proof (cases "lookup f (pre @ [c])")
    case None
    with Cons.prems(1) have "makedirs_from (store f (pre @ [c]) Dir) (pre @ [c]) cs = Inr f'" by simp
    from Cons.IH [OF this np] show ?thesis using ne by (simp add: lookup_store lookup_Nil)
  next
    case (Some n)
    show ?thesis
    proof (cases n)
      case (File b)
      with Some Cons.prems(1) show ?thesis by simp
    next
      case Dir
      with Some Cons.prems(1) have "makedirs_from f (pre @ [c]) cs = Inr f'" by simp
      from Cons.IH [OF this np] show ?thesis .
    qed
  qed
qed

lemma makedirs_from_keeps:
  "makedirs_from f pre cs = Inr f' \<Longrightarrow> lookup f q = Some n \<Longrightarrow> lookup f' q = Some n"
proof (induction cs arbitrary: f pre)
  case Nil
  then show ?case by simp
next
  case (Cons c cs)
  show ?case
  proof (cases "lookup f (pre @ [c])")
    case None
    with Cons.prems(1) have m: "makedirs_from (store f (pre @ [c]) Dir) (pre @ [c]) cs = Inr f'" by simp
    have "lookup (store f (pre @ [c]) Dir) q = Some n"
      using Cons.prems(2) None by (auto simp add: lookup_store lookup_Nil)
    from Cons.IH [OF m this] show ?thesis .
  next
    case (Some k)
    show ?thesis
    proof (cases k)
      case (File b)
      with Some Cons.prems(1) show ?thesis by simp
    next
      case Dir
      with Some Cons.prems(1) have "makedirs_from f (pre @ [c]) cs = Inr f'" by simp
      from Cons.IH [OF this Cons.prems(2)] show ?thesis .
    qed
  qed
qed

lemma makedirs_from_isdir:
  "makedirs_from f pre cs = Inr f' \<Longrightarrow> cs \<noteq> [] \<Longrightarrow> isdir f' (pre @ cs)"
proof (induction cs arbitrary: f pre)
  case Nil
  then show ?case by simp
next
  case (Cons c cs)
  obtain g where g: "makedirs_from g (pre @ [c]) cs = Inr f'" "isdir g (pre @ [c])"
  proof (cases "lookup f (pre @ [c])")
    case None
    with Cons.prems(1) have "makedirs_from (store f (pre @ [c]) Dir) (pre @ [c]) cs = Inr f'" by simp
    moreover have "isdir (store f (pre @ [c]) Dir) (pre @ [c])" by (simp add: isdir_def lookup_store)
    ultimately show ?thesis using that by blast
  next
    case (Some k)
    show ?thesis
    proof (cases k)
      case (File b)
      with Some Cons.prems(1) show ?thesis by simp
    next
      case Dir
      with Some Cons.prems(1) have "makedirs_from f (pre @ [c]) cs = Inr f'" by simp
      moreover have "isdir f (pre @ [c])" using Some Dir by (simp add: isdir_def)
      ultimately show ?thesis using that by blast
    qed
  qed
  show ?case
  proof (cases "cs = []")
    case True
    with g show ?thesis by simp
  next
    case False
    from Cons.IH [OF g(1) False] show ?thesis by simp
  qed
qed

lemma makedirs_all_result:
  "makedirs_all f ps = (None, f') \<Longrightarrow>
     (\<forall>p \<in> set ps. p \<noteq> [] \<longrightarrow> isdir f' p)
     \<and> (\<forall>q. (\<forall>p \<in> set ps. \<not> prefix q p) \<longrightarrow> lookup f' q = lookup f q)
     \<and> (\<forall>q n. lookup f q = Some n \<longrightarrow> lookup f' q = Some n)"
proof (induction ps arbitrary: f)
  case Nil
  then show ?case by simp
next
  case (Cons p ps)
  from Cons.prems obtain g where g: "makedirs f p = Inr g" "makedirs_all g ps = (None, f')"
    by (auto split: sum.splits)
  note ih = Cons.IH [OF g(2)]
  have a: "p \<noteq> [] \<longrightarrow> isdir f' p"
  proof
    assume "p \<noteq> []"
    with g(1) have "isdir g p" using makedirs_from_isdir [of f "[]" p g] by (simp add: makedirs_def)
    then show "isdir f' p" using ih by (simp add: isdir_def)
  qed
  have b: "\<forall>q. (\<forall>p' \<in> set (p # ps). \<not> prefix q p') \<longrightarrow> lookup f' q = lookup f q"
  proof (intro allI impI)
    fix q assume q: "\<forall>p' \<in> set (p # ps). \<not> prefix q p'"
    then have "lookup g q = lookup f q"
      using makedirs_from_other [of f "[]" p g q] g(1) by (simp add: makedirs_def)
    moreover have "lookup f' q = lookup g q" using ih q by simp
    ultimately show "lookup f' q = lookup f q" by simp
  qed
  have c: "\<forall>q n. lookup f q = Some n \<longrightarrow> lookup f' q = Some n"
  proof (intro allI impI)
    fix q n assume "lookup f q = Some n"
    then have "lookup g q = Some n"
      using makedirs_from_keeps [of f "[]" p g q n] g(1) by (simp add: makedirs_def)
    then show "lookup f' q = Some n" using ih by blast
  qed
  from a b c ih show ?case by simp
qed

lemma write_all_writes:
  "distinct (map fst l) \<Longrightarrow>
   \<forall>pb \<in> set l. fst pb \<noteq> [] \<and> isdir f (butlast (fst pb)) \<and> \<not> isdir f (fst pb) \<Longrightarrow>
   (\<forall>pb \<in> set l. lookup (write_all f l) (fst pb) = Some (File (snd pb)))
   \<and> (\<forall>q. q \<notin> fst ` set l \<longrightarrow> lookup (write_all f l) q = lookup f q)"
proof (induction l arbitrary: f)
  case Nil
  then show ?case by simp
next
  case (Cons pb l)
  obtain p b where pb: "pb = (p, b)" by (cases pb)
  define g where "g = store f p (File b)"
  have hp: "p \<noteq> []" "isdir f (butlast p)" "\<not> isdir f p"
    using Cons.prems(2) pb by auto
  have w: "write_all f (pb # l) = write_all g l"
    using hp by (simp add: pb write_file_def g_def isdir_def split: option.splits node.splits)
  have lg: "\<And>q. lookup g q = (if q = [] then Some Dir else if q = p then Some (File b) else lookup f q)"
    by (simp add: g_def lookup_store)
  have d: "distinct (map fst l)" "p \<notin> fst ` set l" using Cons.prems(1) pb by auto
  have inv: "\<forall>pb \<in> set l. fst pb \<noteq> [] \<and> isdir g (butlast (fst pb)) \<and> \<not> isdir g (fst pb)"
  proof
    fix x assume x: "x \<in> set l"
    then have h: "fst x \<noteq> []" "isdir f (butlast (fst x))" "\<not> isdir f (fst x)"
      using Cons.prems(2) by auto
    have "butlast (fst x) \<noteq> p" using h(2) hp(3) by auto
    then have "isdir g (butlast (fst x))" using h(2) by (simp add: isdir_def lg)
    moreover have "\<not> isdir g (fst x)" using h(1) h(3) by (simp add: isdir_def lg)
    ultimately show "fst x \<noteq> [] \<and> isdir g (butlast (fst x)) \<and> \<not> isdir g (fst x)" using h(1) by simp
  qed
  note ih = Cons.IH [OF d(1) inv]
  have "lookup (write_all g l) p = Some (File b)"
    using ih d(2) hp(1) by (simp add: lg)
  moreover have "\<forall>q. q \<notin> fst ` set (pb # l) \<longrightarrow> lookup (write_all g l) q = lookup f q"
    using ih pb by (auto simp add: lg lookup_Nil)
  ultimately show ?case unfolding w using ih by (simp add: pb)
qed

end
